theory Spec2Isabelle
  imports Main
begin

section \<open>Basic types\<close>

text \<open>
  Go strings and byte slices are byte sequences; both are modelled as \<open>string\<close>.
  A \<^verbatim>\<open>time.Duration\<close> is a count of nanoseconds and a \<^verbatim>\<open>time.Time\<close> an
  instant in nanoseconds; both are modelled as \<open>int\<close> (no value of the program comes
  near the 64-bit range).
\<close>

type_synonym bytes = string
type_synonym path = string
type_synonym rsa_key = nat

text \<open>
  Go errors. \<open>Errorf m\<close> is a fresh error with message \<open>m\<close>; \<open>Wrap m e\<close> is
  \<open>fmt.Errorf("m: %w", e)\<close>; \<open>CtxErr\<close> is \<open>ctx.Err()\<close> of a cancelled context;
  \<open>OsErr op p\<close> is an error of the operating system for operation \<open>op\<close> on path \<open>p\<close>;
  \<open>LibErr m\<close> is an error reported by a library or by the remote authority.
\<close>

datatype error = Errorf string | Wrap string error | CtxErr | OsErr string path | LibErr string

definition time_Hour :: int where
  "time_Hour = 3600 * 1000000000"

section \<open>Library functions the program calls\<close>

text \<open>
  The pure functions of the Go standard library that the program calls are parameters
  of the model, collected in one record. \<open>pem_Decode\<close> gives the bytes of the first PEM
  block (\<open>None\<close> when there is none).
\<close>

record x509_Certificate =
  NotAfter :: int

record csr_template =
  Country :: "string list"
  Organization :: "string list"
  SubjectCommonName :: string

record x509_CertificateRequest =
  csr_CommonName :: string
  csr_Raw :: bytes

record lib =
  time_ParseDuration :: "string \<Rightarrow> error + int"
  pem_Decode :: "bytes \<Rightarrow> bytes option"
  x509_ParseCertificate :: "bytes \<Rightarrow> error + x509_Certificate"
  net_ParseIP :: "string \<Rightarrow> bool"
  x509_CreateCertificateRequest :: "csr_template \<Rightarrow> rsa_key \<Rightarrow> error + bytes"
  x509_ParseCertificateRequest :: "bytes \<Rightarrow> error + x509_CertificateRequest"
  x509_MarshalPKCS1PrivateKey :: "rsa_key \<Rightarrow> bytes"
  pem_EncodeToMemory :: "string \<Rightarrow> bytes \<Rightarrow> bytes"

section \<open>Configuration (package config)\<close>

type_synonym environ = "string \<rightharpoonup> string"

definition os_Getenv :: "environ \<Rightarrow> string \<Rightarrow> string" where
  "os_Getenv e key = (case e key of None \<Rightarrow> [] | Some v \<Rightarrow> v)"

record Config =
  ClientIP :: string
  APIKey :: string
  ValidationDir :: string
  SSLDir :: string
  ContainerName :: string
  RenewalInterval :: int
  CertValidity :: int

definition getEnv :: "environ \<Rightarrow> string \<Rightarrow> string \<Rightarrow> string" where
  "getEnv e key defaultValue =
     (let v = os_Getenv e key in if v \<noteq> [] then v else defaultValue)"

definition getDurationEnv :: "lib \<Rightarrow> environ \<Rightarrow> string \<Rightarrow> int \<Rightarrow> int" where
  "getDurationEnv L e key defaultValue =
     (let v = os_Getenv e key in
      if v \<noteq> [] then
        (case time_ParseDuration L v of
           Inr duration \<Rightarrow> duration
         | Inl err \<Rightarrow> defaultValue)
      else defaultValue)"

definition Load :: "lib \<Rightarrow> environ \<Rightarrow> error + Config" where
  "Load L e =
     (let cfg = \<lparr> ClientIP = getEnv e ''CLIENT_IP'' ''127.0.0.1'',
                  APIKey = getEnv e ''IPSSL_API_KEY'' [],
                  ValidationDir = getEnv e ''IPSSL_VALIDATION_DIR'' ''/usr/share/caddy/'',
                  SSLDir = getEnv e ''IPSSL_SSL_DIR'' ''/ipssl/'',
                  ContainerName = getEnv e ''IPSSL_CONTAINER_NAME'' ''caddy-1'',
                  RenewalInterval = getDurationEnv L e ''RENEWAL_INTERVAL'' (24 * time_Hour),
                  CertValidity = getDurationEnv L e ''CERT_VALIDITY'' (30 * 24 * time_Hour) \<rparr>
      in if APIKey cfg = [] then
           Inl (Errorf ''IPSSL_API_KEY environment variable is required'')
         else Inr cfg)"

section \<open>Paths (path/filepath on Unix)\<close>

text \<open>
  \<^verbatim>\<open>filepath.Clean\<close>, \<^verbatim>\<open>Join\<close>, \<^verbatim>\<open>Base\<close> and \<^verbatim>\<open>Dir\<close> as the Go library documents
  them for slash-separated paths: \<open>Clean\<close> drops empty and \<open>.\<close> elements, resolves
  inner \<open>..\<close> elements, and drops \<open>..\<close> elements that begin a rooted path.
\<close>

fun splitSep :: "string \<Rightarrow> string list" where
  "splitSep [] = [[]]"
| "splitSep (c # cs) =
     (if c = CHR ''/'' then [] # splitSep cs
      else (case splitSep cs of [] \<Rightarrow> [[c]] | x # xs \<Rightarrow> (c # x) # xs))"

fun strings_Join :: "string list \<Rightarrow> string \<Rightarrow> string" where
  "strings_Join [] sep = []"
| "strings_Join [x] sep = x"
| "strings_Join (x # y # ys) sep = x @ sep @ strings_Join (y # ys) sep"

definition cleanStep :: "bool \<Rightarrow> string list \<Rightarrow> string \<Rightarrow> string list" where
  "cleanStep rooted out el =
     (if el = [] \<or> el = ''.'' then out
      else if el = ''..'' then
        (if out \<noteq> [] \<and> last out \<noteq> ''..'' then butlast out
         else if rooted then out
         else out @ [el])
      else out @ [el])"

definition filepath_Clean :: "path \<Rightarrow> path" where
  "filepath_Clean p =
     (if p = [] then ''.''
      else
        (let rooted = (hd p = CHR ''/'');
             s = strings_Join (foldl (cleanStep rooted) [] (splitSep p)) ''/''
         in if rooted then CHR ''/'' # s
            else if s = [] then ''.'' else s))"

definition filepath_Join :: "string list \<Rightarrow> path" where
  "filepath_Join elem =
     (case dropWhile (\<lambda>e. e = []) elem of
        [] \<Rightarrow> []
      | e # es \<Rightarrow> filepath_Clean (strings_Join (e # es) ''/''))"

definition filepath_Base :: "path \<Rightarrow> string" where
  "filepath_Base p =
     (if p = [] then ''.''
      else
        (let q = rev (dropWhile (\<lambda>c. c = CHR ''/'') (rev p));
             r = rev (takeWhile (\<lambda>c. c \<noteq> CHR ''/'') (rev q))
         in if r = [] then ''/'' else r))"

definition filepath_Dir :: "path \<Rightarrow> path" where
  "filepath_Dir p = filepath_Clean (rev (dropWhile (\<lambda>c. c \<noteq> CHR ''/'') (rev p)))"

section \<open>The world the program runs in\<close>

subsection \<open>Data exchanged with the certificate authority\<close>

record ValidationObject =
  FileValidationURLHTTP :: string
  FileValidationContent :: "string list"

text \<open>
  \<open>OtherMethods\<close> is a Go map that may be nil; it is an association list, in the
  order in which \<^verbatim>\<open>range\<close> visits it.
\<close>

record ValidationData =
  OtherMethods :: "(string \<times> ValidationObject) list option"

record CertificateObject =
  ID :: string
  CommonName :: string
  Status :: string
  Validation :: "ValidationData option"

record CertificateBundle =
  CertificateCrt :: string
  CABundleCrt :: string

datatype api_call =
    ListCertificates
  | GetCertificate string
  | CreateCertificate x509_CertificateRequest nat
  | VerifyIdentifiers string string "string list"
  | DownloadCertificate string bool

datatype api_response =
    RError error
  | RList "CertificateObject list"
  | RCert CertificateObject
  | RVerified
  | RBundle CertificateBundle

subsection \<open>State\<close>

datatype node = File bytes nat | Dir nat

datatype io_op = OpRead | OpWrite | OpMkdir | OpStat

datatype level = LInfo | LWarn | LError

text \<open>
  \<open>fs\<close> is the file system, \<open>io_fails\<close> the operations the operating system refuses
  for a reason the model does not track, \<open>writes\<close> the \<^verbatim>\<open>os.WriteFile\<close> calls that
  succeeded (path, data, permission argument). \<open>clock\<close> gives the value of the
  \<open>n\<close>-th reading of \<^verbatim>\<open>time.Now\<close>. The authority answers a call as a function of
  all calls made so far, \<open>calls\<close>. \<open>rsa_keys\<close> gives the result of the \<open>n\<close>-th
  \<^verbatim>\<open>rsa.GenerateKey\<close>. \<open>privateKeys\<close> is the map of the same name of the ZeroSSL
  client. \<open>docker_connect\<close> is the outcome of creating the Docker client,
  \<open>docker_reload\<close> the outcome of asking the Docker daemon to signal a
  container, \<open>reloads\<close> the containers asked for. \<open>logs\<close> holds the level and the
  message of every log line (the key-value arguments are left out).
\<close>

record world =
  fs :: "path \<rightharpoonup> node"
  io_fails :: "io_op \<Rightarrow> path \<Rightarrow> bool"
  writes :: "(path \<times> bytes \<times> nat) list"
  clock :: "nat \<Rightarrow> int"
  clock_reads :: nat
  authority :: "api_call list \<Rightarrow> api_response"
  calls :: "api_call list"
  rsa_keys :: "nat \<Rightarrow> error + rsa_key"
  rsa_count :: nat
  privateKeys :: "string \<rightharpoonup> rsa_key"
  docker_connect :: "error option"
  docker_reload :: "string \<Rightarrow> error option"
  reloads :: "string list"
  logs :: "(level \<times> string) list"

definition perm_0644 :: nat where "perm_0644 = 6 * 64 + 4 * 8 + 4"
definition perm_0600 :: nat where "perm_0600 = 6 * 64"
definition perm_0755 :: nat where "perm_0755 = 7 * 64 + 5 * 8 + 5"

definition logger :: "level \<Rightarrow> string \<Rightarrow> world \<Rightarrow> world" where
  "logger l msg w = w\<lparr>logs := logs w @ [(l, msg)]\<rparr>"

definition time_Now :: "world \<Rightarrow> int \<times> world" where
  "time_Now w = (clock w (clock_reads w), w\<lparr>clock_reads := Suc (clock_reads w)\<rparr>)"

definition rsa_GenerateKey :: "world \<Rightarrow> (error + rsa_key) \<times> world" where
  "rsa_GenerateKey w = (rsa_keys w (rsa_count w), w\<lparr>rsa_count := Suc (rsa_count w)\<rparr>)"

subsection \<open>Files\<close>

text \<open>
  \<^verbatim>\<open>os.WriteFile\<close> creates a missing file with the permission given and truncates
  an existing one, whose permission it leaves as it is; it fails on a directory.
  \<^verbatim>\<open>os.MkdirAll\<close> does nothing on an existing directory and fails on a file (the
  parents it creates are not tracked). \<^verbatim>\<open>os.Stat\<close> tells a missing path from any
  other failure. A failed operation leaves the file system as it was.
\<close>

definition os_ReadFile :: "path \<Rightarrow> world \<Rightarrow> error + bytes" where
  "os_ReadFile p w =
     (case fs w p of
        Some (File c m) \<Rightarrow> if io_fails w OpRead p then Inl (OsErr ''open'' p) else Inr c
      | Some (Dir m) \<Rightarrow> Inl (OsErr ''read'' p)
      | None \<Rightarrow> Inl (OsErr ''open'' p))"

definition os_WriteFile :: "path \<Rightarrow> bytes \<Rightarrow> nat \<Rightarrow> world \<Rightarrow> error option \<times> world" where
  "os_WriteFile p d perm w =
     (if io_fails w OpWrite p then (Some (OsErr ''open'' p), w)
      else
        (case fs w p of
           Some (Dir m) \<Rightarrow> (Some (OsErr ''open'' p), w)
         | Some (File c m) \<Rightarrow>
             (None, w\<lparr>fs := (fs w)(p \<mapsto> File d m), writes := writes w @ [(p, d, perm)]\<rparr>)
         | None \<Rightarrow>
             (None, w\<lparr>fs := (fs w)(p \<mapsto> File d perm), writes := writes w @ [(p, d, perm)]\<rparr>)))"

definition os_MkdirAll :: "path \<Rightarrow> nat \<Rightarrow> world \<Rightarrow> error option \<times> world" where
  "os_MkdirAll p perm w =
     (if io_fails w OpMkdir p then (Some (OsErr ''mkdir'' p), w)
      else
        (case fs w p of
           Some (File c m) \<Rightarrow> (Some (OsErr ''mkdir'' p), w)
         | Some (Dir m) \<Rightarrow> (None, w)
         | None \<Rightarrow> (None, w\<lparr>fs := (fs w)(p \<mapsto> Dir perm)\<rparr>)))"

datatype stat_result = StatOk | StatNotExist | StatError

definition os_Stat :: "path \<Rightarrow> world \<Rightarrow> stat_result" where
  "os_Stat p w =
     (case fs w p of
        None \<Rightarrow> StatNotExist
      | Some n \<Rightarrow> if io_fails w OpStat p then StatError else StatOk)"

subsection \<open>Calls to the authority\<close>

definition api_do :: "api_call \<Rightarrow> world \<Rightarrow> api_response \<times> world" where
  "api_do c w = (authority w (calls w @ [c]), w\<lparr>calls := calls w @ [c]\<rparr>)"

definition client_ListCertificates :: "world \<Rightarrow> (error + CertificateObject list) \<times> world" where
  "client_ListCertificates w =
     (case api_do ListCertificates w of
        (RList xs, w1) \<Rightarrow> (Inr xs, w1)
      | (RError e, w1) \<Rightarrow> (Inl e, w1)
      | (r, w1) \<Rightarrow> (Inl (LibErr ''unexpected response''), w1))"

definition client_GetCertificate :: "string \<Rightarrow> world \<Rightarrow> (error + CertificateObject) \<times> world" where
  "client_GetCertificate certID w =
     (case api_do (GetCertificate certID) w of
        (RCert d, w1) \<Rightarrow> (Inr d, w1)
      | (RError e, w1) \<Rightarrow> (Inl e, w1)
      | (r, w1) \<Rightarrow> (Inl (LibErr ''unexpected response''), w1))"

definition client_CreateCertificate ::
  "x509_CertificateRequest \<Rightarrow> nat \<Rightarrow> world \<Rightarrow> (error + CertificateObject) \<times> world" where
  "client_CreateCertificate csr days w =
     (case api_do (CreateCertificate csr days) w of
        (RCert d, w1) \<Rightarrow> (Inr d, w1)
      | (RError e, w1) \<Rightarrow> (Inl e, w1)
      | (r, w1) \<Rightarrow> (Inl (LibErr ''unexpected response''), w1))"

definition client_VerifyIdentifiers ::
  "string \<Rightarrow> string \<Rightarrow> string list \<Rightarrow> world \<Rightarrow> error option \<times> world" where
  "client_VerifyIdentifiers certID method emails w =
     (case api_do (VerifyIdentifiers certID method emails) w of
        (RError e, w1) \<Rightarrow> (Some e, w1)
      | (RVerified, w1) \<Rightarrow> (None, w1)
      | (RCert d, w1) \<Rightarrow> (None, w1)
      | (r, w1) \<Rightarrow> (Some (LibErr ''unexpected response''), w1))"

definition client_DownloadCertificate ::
  "string \<Rightarrow> bool \<Rightarrow> world \<Rightarrow> (error + CertificateBundle) \<times> world" where
  "client_DownloadCertificate certID includeCrossSigned w =
     (case api_do (DownloadCertificate certID includeCrossSigned) w of
        (RBundle b, w1) \<Rightarrow> (Inr b, w1)
      | (RError e, w1) \<Rightarrow> (Inl e, w1)
      | (r, w1) \<Rightarrow> (Inl (LibErr ''unexpected response''), w1))"

section \<open>The ZeroSSL client (package zerossl)\<close>

text \<open>
  A blocking call returns \<open>Blocked\<close> when the events given to it run out while it
  waits. A \<^verbatim>\<open>select\<close> of a loop takes the next event: the context is done, or the
  ticker fired.
\<close>

datatype 'a result = Blocked | Returned 'a

datatype select_case = CtxDone | TickerC

definition zerossl_HTTPVerification :: string where
  "zerossl_HTTPVerification = ''HTTP_CSR_HASH''"

definition IsCertificateValid ::
  "lib \<Rightarrow> path \<Rightarrow> int \<Rightarrow> world \<Rightarrow> (bool \<times> error option) \<times> world" where
  "IsCertificateValid L certPath validityDuration w =
     (case os_ReadFile certPath w of
        Inl err \<Rightarrow> ((False, Some (Wrap ''failed to read certificate file'' err)), w)
      | Inr certPEM \<Rightarrow>
          (case pem_Decode L certPEM of
             None \<Rightarrow> ((False, Some (Errorf ''failed to decode PEM block'')), w)
           | Some block \<Rightarrow>
               (case x509_ParseCertificate L block of
                  Inl err \<Rightarrow> ((False, Some (Wrap ''failed to parse certificate'' err)), w)
                | Inr cert \<Rightarrow>
                    (case time_Now w of (now1, w1) \<Rightarrow>
                       if now1 > NotAfter cert then ((False, None), w1)
                       else
                         (case time_Now w1 of (now2, w2) \<Rightarrow>
                            (let expiryThreshold = now2 + validityDuration
                             in if NotAfter cert < expiryThreshold then ((False, None), w2)
                                else ((True, None), w2)))))))"

definition createIPCertificate ::
  "lib \<Rightarrow> string \<Rightarrow> world \<Rightarrow> (error + CertificateObject) \<times> world" where
  "createIPCertificate L ip w =
     (case rsa_GenerateKey (logger LInfo ''Creating IP certificate using ZeroSSL library'' w) of
        (Inl err, w1) \<Rightarrow> (Inl (Wrap ''failed to generate private key'' err), w1)
      | (Inr privateKey, w1) \<Rightarrow>
          if \<not> net_ParseIP L ip then (Inl (Errorf (''invalid IP address: '' @ ip)), w1)
          else
            (let csrTemplate = \<lparr> Country = [''US''], Organization = [''IPSSL Client''],
                                  SubjectCommonName = ip \<rparr>
             in case x509_CreateCertificateRequest L csrTemplate privateKey of
                  Inl err \<Rightarrow> (Inl (Wrap ''failed to create CSR'' err), w1)
                | Inr csrDER \<Rightarrow>
                    (case x509_ParseCertificateRequest L csrDER of
                       Inl err \<Rightarrow> (Inl (Wrap ''failed to parse CSR'' err), w1)
                     | Inr csr \<Rightarrow>
                         (let w2 = logger LInfo ''CSR created successfully'' w1;
                              w3 = w2\<lparr>privateKeys := (privateKeys w2)(ip \<mapsto> privateKey)\<rparr>
                          in case client_CreateCertificate csr 90 w3 of
                               (Inl err, w4) \<Rightarrow>
                                 (Inl (Wrap ''failed to create certificate request'' err), w4)
                             | (Inr certObj, w4) \<Rightarrow> (Inr certObj, w4)))))"

text \<open>The loop of \<^verbatim>\<open>findExistingCertificate\<close> over the results of the list call.\<close>

fun findExistingCertificate_loop ::
  "string \<Rightarrow> CertificateObject list \<Rightarrow> world \<Rightarrow> string \<times> world" where
  "findExistingCertificate_loop ip [] w = ([], w)"
| "findExistingCertificate_loop ip (cert # rest) w =
     (if CommonName cert = ip then
        (let w1 = logger LInfo ''Found existing certificate'' w
         in if Status cert = ''issued'' \<or> Status cert = ''pending_validation''
               \<or> Status cert = ''draft''
            then (ID cert, w1)
            else findExistingCertificate_loop ip rest
                   (logger LInfo ''Skipping certificate with invalid status'' w1))
      else findExistingCertificate_loop ip rest w)"

definition findExistingCertificate ::
  "string \<Rightarrow> world \<Rightarrow> (string \<times> error option) \<times> world" where
  "findExistingCertificate ip w =
     (case client_ListCertificates w of
        (Inl err, w1) \<Rightarrow> (([], Some (Wrap ''failed to list certificates'' err)), w1)
      | (Inr results, w1) \<Rightarrow>
          (case findExistingCertificate_loop ip results w1 of
             (certID, w2) \<Rightarrow> ((certID, None), w2)))"

definition getPrivateKey :: "lib \<Rightarrow> string \<Rightarrow> world \<Rightarrow> (error + bytes) \<times> world" where
  "getPrivateKey L certID w =
     (case client_GetCertificate certID w of
        (Inl err, w1) \<Rightarrow> (Inl (Wrap ''failed to get certificate details'' err), w1)
      | (Inr certDetails, w1) \<Rightarrow>
          (let ip = CommonName certDetails
           in case privateKeys w1 ip of
                Some privateKey \<Rightarrow>
                  (Inr (pem_EncodeToMemory L ''RSA PRIVATE KEY''
                          (x509_MarshalPKCS1PrivateKey L privateKey)), w1)
              | None \<Rightarrow>
                  (let keyPath = filepath_Join [''/ipssl'', ''key.pem'']
                   in case os_ReadFile keyPath w1 of
                        Inr keyPEM \<Rightarrow>
                          (Inr keyPEM, logger LInfo ''Loaded private key from file'' w1)
                      | Inl rerr \<Rightarrow>
                          (case rsa_GenerateKey
                                  (logger LInfo ''Generating new private key for IP'' w1) of
                             (Inl err, w2) \<Rightarrow>
                               (Inl (Wrap ''failed to generate new private key'' err), w2)
                           | (Inr privateKey, w2) \<Rightarrow>
                               (let w3 = w2\<lparr>privateKeys := (privateKeys w2)(ip \<mapsto> privateKey)\<rparr>;
                                    keyPEM = pem_EncodeToMemory L ''RSA PRIVATE KEY''
                                               (x509_MarshalPKCS1PrivateKey L privateKey)
                                in case os_WriteFile keyPath keyPEM perm_0600 w3 of
                                     (Some err, w4) \<Rightarrow>
                                       (Inr keyPEM,
                                        logger LInfo ''Generated and stored new private key''
                                          (logger LWarn ''Failed to save private key to file'' w4))
                                   | (None, w4) \<Rightarrow>
                                       (Inr keyPEM,
                                        logger LInfo ''Generated and stored new private key''
                                          w4))))))"

text \<open>The \<^verbatim>\<open>for { select { ... } }\<close> loop of \<^verbatim>\<open>waitForCertificateIssuance\<close>.\<close>

fun waitForCertificateIssuance_loop ::
  "string \<Rightarrow> select_case list \<Rightarrow> world \<Rightarrow> (error + CertificateObject) result \<times> world" where
  "waitForCertificateIssuance_loop certID [] w = (Blocked, w)"
| "waitForCertificateIssuance_loop certID (CtxDone # evs) w = (Returned (Inl CtxErr), w)"
| "waitForCertificateIssuance_loop certID (TickerC # evs) w =
     (case client_GetCertificate certID w of
        (Inl err, w1) \<Rightarrow>
          waitForCertificateIssuance_loop certID evs
            (logger LError ''Failed to get certificate details'' w1)
      | (Inr certDetails, w1) \<Rightarrow>
          (let w2 = logger LInfo ''Certificate status'' w1
           in if Status certDetails = ''issued'' then (Returned (Inr certDetails), w2)
              else if Status certDetails = ''cancelled'' \<or> Status certDetails = ''expired''
              then (Returned (Inl (Errorf (''certificate '' @ certID @ '' failed with status: ''
                                              @ Status certDetails))), w2)
              else if Status certDetails = ''draft''
                      \<or> Status certDetails = ''pending_validation''
              then waitForCertificateIssuance_loop certID evs w2
              else waitForCertificateIssuance_loop certID evs
                     (logger LWarn ''Unknown certificate status'' w2)))"

definition waitForCertificateIssuance ::
  "string \<Rightarrow> select_case list \<Rightarrow> world \<Rightarrow> (error + CertificateObject) result \<times> world" where
  "waitForCertificateIssuance certID evs w =
     waitForCertificateIssuance_loop certID evs
       (logger LInfo ''Waiting for certificate issuance'' w)"

text \<open>
  The inner loop of \<^verbatim>\<open>ValidateCertificate\<close> that builds the content of a validation
  file: \<open>i\<close> is the index, the last argument the string built so far.
\<close>

fun validationContent_loop :: "nat \<Rightarrow> string list \<Rightarrow> string \<Rightarrow> string" where
  "validationContent_loop i [] validationContent = validationContent"
| "validationContent_loop i (content # rest) validationContent =
     validationContent_loop (Suc i) rest
       ((if i > 0 then validationContent @ [CHR 0x0A] else validationContent) @ content)"

text \<open>
  The loop of \<^verbatim>\<open>ValidateCertificate\<close> over the validation methods. The source has it
  twice, for the details fetched first (\<open>updated = False\<close>) and for the details
  fetched after the validation was triggered (\<open>updated = True\<close>); the two copies
  differ in their log lines only.
\<close>

fun ValidateCertificate_methods ::
  "bool \<Rightarrow> path \<Rightarrow> (string \<times> ValidationObject) list \<Rightarrow> world \<Rightarrow> error option \<times> world" where
  "ValidateCertificate_methods updated validationDir [] w = (None, w)"
| "ValidateCertificate_methods updated validationDir ((method, validation) # rest) w =
     (let w1 = logger LInfo (if updated then ''Processing updated validation method''
                             else ''Processing validation method'') w
      in if length (FileValidationContent validation) > 0 then
           (let validationContent =
                  validationContent_loop 0 (FileValidationContent validation) [];
                filename = filepath_Base (FileValidationURLHTTP validation);
                validationPath =
                  filepath_Join [validationDir, ''.well-known'', ''pki-validation'', filename];
                w2 = (if updated then logger LInfo ''Creating validation file'' w1 else w1)
            in case os_MkdirAll (filepath_Dir validationPath) perm_0755 w2 of
                 (Some err, w3) \<Rightarrow>
                   (Some (Wrap ''failed to create validation directory'' err), w3)
               | (None, w3) \<Rightarrow>
                   (case os_WriteFile validationPath validationContent perm_0644 w3 of
                      (Some err, w4) \<Rightarrow>
                        (Some (Wrap ''failed to write validation file'' err), w4)
                    | (None, w4) \<Rightarrow>
                        ValidateCertificate_methods updated validationDir rest
                          (logger LInfo (if updated then ''Validation file created successfully''
                                         else ''Validation file created'') w4)))
         else ValidateCertificate_methods updated validationDir rest
                (logger LWarn (if updated
                               then ''Skipping updated validation method - no content''
                               else ''Skipping validation method'') w1))"

text \<open>
  The path of the file that the loop writes for a validation method, and the entry of
  \<open>writes\<close> that its write leaves; both are used in statements below.
\<close>

definition validationPath :: "path \<Rightarrow> ValidationObject \<Rightarrow> path" where
  "validationPath validationDir validation =
     filepath_Join [validationDir, ''.well-known'', ''pki-validation'',
                    filepath_Base (FileValidationURLHTTP validation)]"


text \<open>
  \<open>validationMethods d\<close> is \<open>Some\<close> exactly when
  \<^verbatim>\<open>d.Validation != nil && d.Validation.OtherMethods != nil\<close>.
\<close>

definition validationMethods ::
  "CertificateObject \<Rightarrow> (string \<times> ValidationObject) list option" where
  "validationMethods d = (case Validation d of None \<Rightarrow> None | Some v \<Rightarrow> OtherMethods v)"

text \<open>
  \<^verbatim>\<open>ValidateCertificate\<close> is written in two parts. \<open>ValidateCertificate_updated\<close> is
  its second half: it triggers the validation, fetches the updated details and writes
  their files.
\<close>

definition ValidateCertificate_updated ::
  "string \<Rightarrow> path \<Rightarrow> world \<Rightarrow> error option \<times> world" where
  "ValidateCertificate_updated certID validationDir w7 =
     (let w8 = logger LInfo ''Attempting to trigger domain validation'' w7
      in case client_VerifyIdentifiers certID zerossl_HTTPVerification [] w8 of
           (verr, w9) \<Rightarrow>
             (let w10 = (case verr of
                           Some err \<Rightarrow> logger LError ''Failed to trigger domain validation'' w9
                         | None \<Rightarrow> w9);
                  w11 = logger LInfo ''Getting updated certificate details'' w10
              in case client_GetCertificate certID w11 of
                   (Inl err, w12) \<Rightarrow>
                     (Some (Wrap ''failed to get updated certificate details'' err), w12)
                 | (Inr updatedCertDetails, w12) \<Rightarrow>
                     (let w13 = logger LInfo ''Updated certificate validation details'' w12
                      in case (case validationMethods updatedCertDetails of
                                 Some methods \<Rightarrow>
                                   ValidateCertificate_methods True validationDir methods
                                     (logger LInfo ''Found updated validation methods'' w13)
                               | None \<Rightarrow>
                                   (None,
                                    logger LWarn ''No updated validation methods found'' w13)) of
                           (Some err, w14) \<Rightarrow> (Some err, w14)
                         | (None, w14) \<Rightarrow>
                             (None,
                              logger LInfo ''Domain validation process completed'' w14))))"

definition ValidateCertificate :: "string \<Rightarrow> path \<Rightarrow> world \<Rightarrow> error option \<times> world" where
  "ValidateCertificate certID validationDir w =
     (let w1 = logger LInfo ''Starting certificate validation'' w;
          w2 = logger LInfo ''=== ENTERING ValidateCertificate METHOD ==='' w1;
          w3 = logger LInfo ''Getting certificate details'' w2
      in case client_GetCertificate certID w3 of
           (Inl err, w4) \<Rightarrow>
             (Some (Wrap ''failed to get certificate details'' err),
              logger LError ''Failed to get certificate details'' w4)
         | (Inr certDetails, w4) \<Rightarrow>
             (let w5 = logger LInfo ''Successfully got certificate details'' w4;
                  w6 = logger LInfo ''Certificate validation details'' w5
              in case (case validationMethods certDetails of
                         Some methods \<Rightarrow>
                           ValidateCertificate_methods False validationDir methods
                             (logger LInfo ''Found validation methods'' w6)
                       | None \<Rightarrow> (None, logger LWarn ''No validation methods found'' w6)) of
                   (Some err, w7) \<Rightarrow> (Some err, w7)
                 | (None, w7) \<Rightarrow> ValidateCertificate_updated certID validationDir w7))"

text \<open>
  \<^verbatim>\<open>RequestCertificate\<close> is written in three parts. \<open>RequestCertificate_download\<close>
  is its end, from the download of the issued certificate on;
  \<open>RequestCertificate_issue\<close> is its middle, from the validation on.
\<close>

definition RequestCertificate_download ::
  "lib \<Rightarrow> CertificateObject \<Rightarrow> world \<Rightarrow> (error + bytes \<times> bytes) \<times> world" where
  "RequestCertificate_download L certDetails w8 =
     (case client_DownloadCertificate (ID certDetails) True w8 of
        (Inl err, w9) \<Rightarrow> (Inl (Wrap ''failed to download certificate'' err), w9)
      | (Inr certBundle, w9) \<Rightarrow>
          (case getPrivateKey L (ID certDetails) w9 of
             (Inl err, w10) \<Rightarrow> (Inl (Wrap ''failed to get private key'' err), w10)
           | (Inr keyPEM, w10) \<Rightarrow>
               (let c0 = (if CertificateCrt certBundle \<noteq> []
                          then CertificateCrt certBundle else []);
                    fullCertChain =
                      (if CABundleCrt certBundle \<noteq> [] then
                         (if c0 \<noteq> [] then c0 @ [CHR 0x0A] else c0) @ CABundleCrt certBundle
                       else c0)
                in (Inr (fullCertChain, keyPEM),
                    logger LInfo ''Certificate downloaded successfully'' w10))))"

text \<open>The validation directory, as \<^verbatim>\<open>RequestCertificate\<close> reads it from the environment.\<close>

definition RequestCertificate_validationDir :: "environ \<Rightarrow> path" where
  "RequestCertificate_validationDir e =
     (let validationDir = os_Getenv e ''IPSSL_VALIDATION_DIR''
      in if validationDir = [] then ''/usr/share/caddy/'' else validationDir)"

definition RequestCertificate_issue ::
  "lib \<Rightarrow> environ \<Rightarrow> CertificateObject \<Rightarrow> select_case list \<Rightarrow> world
     \<Rightarrow> (error + bytes \<times> bytes) result \<times> world" where
  "RequestCertificate_issue L e certObj evs w6 =
     (let validationDir = RequestCertificate_validationDir e
      in case ValidateCertificate (ID certObj) validationDir w6 of
           (Some err, w7) \<Rightarrow>
             (Returned (Inl (Wrap ''failed to validate certificate'' err)), w7)
         | (None, w7) \<Rightarrow>
             (case waitForCertificateIssuance (ID certObj) evs w7 of
                (Blocked, w8) \<Rightarrow> (Blocked, w8)
              | (Returned (Inl err), w8) \<Rightarrow>
                  (Returned (Inl (Wrap ''failed to wait for certificate issuance'' err)), w8)
              | (Returned (Inr certDetails), w8) \<Rightarrow>
                  (case RequestCertificate_download L certDetails w8 of
                     (r, w10) \<Rightarrow> (Returned r, w10))))"

definition RequestCertificate ::
  "lib \<Rightarrow> environ \<Rightarrow> string \<Rightarrow> select_case list \<Rightarrow> world
     \<Rightarrow> (error + bytes \<times> bytes) result \<times> world" where
  "RequestCertificate L e ip evs w =
     (let w1 = logger LInfo ''Requesting certificate from ZeroSSL'' w;
          w2 = logger LInfo ''=== ENTERING RequestCertificate METHOD ==='' w1;
          w3 = logger LInfo ''Checking for existing certificate'' w2
      in case findExistingCertificate ip w3 of
           ((existingCertID, ferr), w4) \<Rightarrow>
             (let w5 = (case ferr of
                          Some err \<Rightarrow>
                            logger LWarn ''Failed to check for existing certificate'' w4
                        | None \<Rightarrow>
                            if existingCertID \<noteq> []
                            then logger LInfo ''Found existing certificate'' w4
                            else logger LInfo
                                   ''No existing certificate found, will create new one'' w4)
              in case (if existingCertID \<noteq> [] then
                         (case client_GetCertificate existingCertID
                                 (logger LInfo ''Found existing certificate request'' w5) of
                            (Inl err, w6) \<Rightarrow>
                              (Inl (Wrap ''failed to get existing certificate details'' err), w6)
                          | (Inr certDetails, w6) \<Rightarrow> (Inr certDetails, w6))
                       else
                         (case createIPCertificate L ip w5 of
                            (Inl err, w6) \<Rightarrow>
                              (Inl (Wrap ''failed to create IP certificate'' err), w6)
                          | (Inr newCertObj, w6) \<Rightarrow>
                              (Inr newCertObj,
                               logger LInfo ''Certificate request created'' w6))) of
                   (Inl err, w6) \<Rightarrow> (Returned (Inl err), w6)
                 | (Inr certObj, w6) \<Rightarrow> RequestCertificate_issue L e certObj evs w6))"

section \<open>The renewal client (package ipssl)\<close>

record zerossl_Client =
  apiKey :: string

text \<open>\<open>docker\<close> tells whether the Docker client is set (not nil).\<close>

record Client =
  config :: Config
  zerossl :: zerossl_Client
  docker :: bool

definition zerossl_NewClient :: "string \<Rightarrow> error + zerossl_Client" where
  "zerossl_NewClient key =
     (if key = [] then Inl (Errorf ''API key is required'') else Inr \<lparr> apiKey = key \<rparr>)"

definition NewClient :: "Config \<Rightarrow> world \<Rightarrow> (error + Client) \<times> world" where
  "NewClient cfg w =
     (case zerossl_NewClient (APIKey cfg) of
        Inl err \<Rightarrow> (Inl (Wrap ''failed to create ZeroSSL client'' err), w)
      | Inr zerosslClient \<Rightarrow>
          if ContainerName cfg \<noteq> [] then
            (case docker_connect w of
               Some err \<Rightarrow>
                 (Inl (Wrap ''failed to create Docker client''
                         (Wrap ''failed to create Docker client'' err)), w)
             | None \<Rightarrow>
                 (Inr \<lparr> config = cfg, zerossl = zerosslClient, docker = True \<rparr>,
                  logger LInfo ''Docker client initialized'' w))
          else
            (Inr \<lparr> config = cfg, zerossl = zerosslClient, docker = False \<rparr>,
             logger LInfo ''Docker client not initialized - no container name specified'' w))"

fun ensureDirectories_loop :: "path list \<Rightarrow> world \<Rightarrow> error option \<times> world" where
  "ensureDirectories_loop [] w = (None, w)"
| "ensureDirectories_loop (dir # dirs) w =
     (case os_MkdirAll dir perm_0755 w of
        (Some err, w1) \<Rightarrow> (Some (Wrap (''failed to create directory '' @ dir) err), w1)
      | (None, w1) \<Rightarrow> ensureDirectories_loop dirs w1)"

definition ensureDirectories :: "Client \<Rightarrow> world \<Rightarrow> error option \<times> world" where
  "ensureDirectories c w =
     ensureDirectories_loop
       [SSLDir (config c), ValidationDir (config c),
        filepath_Join [ValidationDir (config c), ''.well-known'', ''pki-validation'']] w"

definition certificateFilesExist :: "Client \<Rightarrow> world \<Rightarrow> bool \<times> string" where
  "certificateFilesExist c w =
     (let certPath = filepath_Join [SSLDir (config c), ''cert.pem''];
          keyPath = filepath_Join [SSLDir (config c), ''key.pem'']
      in if os_Stat certPath w = StatNotExist then (False, ''certificate file missing'')
         else if os_Stat keyPath w = StatNotExist then (False, ''private key file missing'')
         else (True, ''both files exist''))"

definition isCertificateValid :: "lib \<Rightarrow> Client \<Rightarrow> world \<Rightarrow> bool \<times> world" where
  "isCertificateValid L c w =
     (let certPath = filepath_Join [SSLDir (config c), ''cert.pem'']
      in case certificateFilesExist c w of
           (False, reason) \<Rightarrow>
             (False,
              logger LInfo ''Certificate files missing, will download new certificate'' w)
         | (True, reason) \<Rightarrow>
             (case IsCertificateValid L certPath (CertValidity (config c)) w of
                ((valid, Some err), w1) \<Rightarrow>
                  (False, logger LError ''Failed to check certificate validity'' w1)
              | ((valid, None), w1) \<Rightarrow>
                  if \<not> valid then
                    (valid,
                     logger LInfo
                       ''Certificate is expired or will expire soon, will download new certificate''
                       w1)
                  else (valid, w1)))"

text \<open>
  \<^verbatim>\<open>ReloadContainer\<close> of package docker, with the Docker daemon behind it: it looks
  the container up, checks that it runs and sends it a signal; whether this works is
  up to the daemon.
\<close>

definition docker_ReloadContainer :: "string \<Rightarrow> world \<Rightarrow> error option \<times> world" where
  "docker_ReloadContainer containerName w =
     (let w1 = (logger LInfo ''Reloading container'' w)
                 \<lparr>reloads := reloads w @ [containerName]\<rparr>
      in case docker_reload w containerName of
           Some err \<Rightarrow> (Some err, w1)
         | None \<Rightarrow>
             (None, logger LInfo ''Successfully sent reload signal to container'' w1))"

text \<open>
  The part of \<^verbatim>\<open>requestCertificate\<close> that saves the certificate files.
\<close>

definition requestCertificate_save ::
  "Client \<Rightarrow> bytes \<Rightarrow> bytes \<Rightarrow> world \<Rightarrow> error option \<times> world" where
  "requestCertificate_save c cert key w =
     (let certPath = filepath_Join [SSLDir (config c), ''cert.pem''];
          keyPath = filepath_Join [SSLDir (config c), ''key.pem'']
      in case os_WriteFile certPath cert perm_0644 w of
           (Some err, w1) \<Rightarrow> (Some (Wrap ''failed to save certificate'' err), w1)
         | (None, w1) \<Rightarrow>
             (case os_WriteFile keyPath key perm_0600 w1 of
                (Some err, w2) \<Rightarrow> (Some (Wrap ''failed to save private key'' err), w2)
              | (None, w2) \<Rightarrow> (None, logger LInfo ''Certificate saved successfully'' w2)))"

text \<open>
  The count of certificate blocks that \<^verbatim>\<open>requestCertificate\<close> computes goes into
  the arguments of a log line only, so it is left out.
\<close>

definition requestCertificate ::
  "lib \<Rightarrow> environ \<Rightarrow> Client \<Rightarrow> select_case list \<Rightarrow> world \<Rightarrow> error option result \<times> world" where
  "requestCertificate L e c evs w =
     (case RequestCertificate L e (ClientIP (config c)) evs
             (logger LInfo ''Requesting new certificate'' w) of
        (Blocked, w1) \<Rightarrow> (Blocked, w1)
      | (Returned (Inl err), w1) \<Rightarrow>
          (Returned (Some (Wrap ''failed to request certificate from ZeroSSL'' err)), w1)
      | (Returned (Inr (cert, key)), w1) \<Rightarrow>
          (case requestCertificate_save c cert key
                  (logger LInfo ''Certificate chain received'' w1) of
             (Some err, w2) \<Rightarrow> (Returned (Some err), w2)
           | (None, w2) \<Rightarrow>
               if docker c \<and> ContainerName (config c) \<noteq> [] then
                 (case docker_ReloadContainer (ContainerName (config c)) w2 of
                    (Some err, w3) \<Rightarrow>
                      (Returned None, logger LError ''Failed to reload Caddy container'' w3)
                  | (None, w3) \<Rightarrow> (Returned None, w3))
               else
                 (Returned None,
                  logger LInfo
                    ''Skipping container reload - Docker client not available or no container name specified''
                    w2)))"

text \<open>
  The \<^verbatim>\<open>for { select { ... } }\<close> loop of \<^verbatim>\<open>Start\<close>. Each round gives the event its
  \<^verbatim>\<open>select\<close> takes and the events for the wait inside a renewal of that round.
\<close>

fun Start_loop ::
  "lib \<Rightarrow> environ \<Rightarrow> Client \<Rightarrow> (select_case \<times> select_case list) list \<Rightarrow> world
     \<Rightarrow> error result \<times> world" where
  "Start_loop L e c [] w = (Blocked, w)"
| "Start_loop L e c ((CtxDone, evs) # rounds) w =
     (Returned CtxErr, logger LInfo ''IPSSL client stopped'' w)"
| "Start_loop L e c ((TickerC, evs) # rounds) w =
     (case isCertificateValid L c w of
        (False, w1) \<Rightarrow>
          (case requestCertificate L e c evs
                  (logger LInfo
                     ''Certificate needs renewal (missing, expired, or expiring soon)'' w1) of
             (Blocked, w2) \<Rightarrow> (Blocked, w2)
           | (Returned (Some err), w2) \<Rightarrow>
               Start_loop L e c rounds (logger LError ''Failed to renew certificate'' w2)
           | (Returned None, w2) \<Rightarrow> Start_loop L e c rounds w2)
      | (True, w1) \<Rightarrow>
          Start_loop L e c rounds
            (logger LInfo ''Certificate is still valid, skipping renewal'' w1))"

text \<open>\<open>evs0\<close> are the events for the wait inside the renewal at startup.\<close>

definition Start ::
  "lib \<Rightarrow> environ \<Rightarrow> Client \<Rightarrow> select_case list \<Rightarrow> (select_case \<times> select_case list) list
     \<Rightarrow> world \<Rightarrow> error result \<times> world" where
  "Start L e c evs0 rounds w =
     (case ensureDirectories c (logger LInfo ''Starting IPSSL client'' w) of
        (Some err, w1) \<Rightarrow> (Returned (Wrap ''failed to ensure directories'' err), w1)
      | (None, w1) \<Rightarrow>
          (case isCertificateValid L c w1 of
             (True, w2) \<Rightarrow>
               Start_loop L e c rounds
                 (logger LInfo ''Valid certificate already exists, skipping initial download'' w2)
           | (False, w2) \<Rightarrow>
               (case requestCertificate L e c evs0
                       (logger LInfo
                          ''Certificate needs to be downloaded (missing or invalid)'' w2) of
                  (Blocked, w3) \<Rightarrow> (Blocked, w3)
                | (Returned (Some err), w3) \<Rightarrow>
                    (Returned (Wrap ''failed to request certificate'' err), w3)
                | (Returned None, w3) \<Rightarrow> Start_loop L e c rounds w3)))"

text \<open>
  \<^verbatim>\<open>main\<close>, from the loading of the configuration on: \<open>e\<close> is the environment
  after the \<^verbatim>\<open>.env\<close> file was read, and the shutdown signal is the \<open>CtxDone\<close> event.
  \<^verbatim>\<open>logger.Fatal\<close> logs an error and exits with status 1, the value returned.
\<close>

definition main ::
  "lib \<Rightarrow> environ \<Rightarrow> select_case list \<Rightarrow> (select_case \<times> select_case list) list
     \<Rightarrow> world \<Rightarrow> nat result \<times> world" where
  "main L e evs0 rounds w =
     (case Load L e of
        Inl err \<Rightarrow> (Returned 1, logger LError ''Failed to load configuration'' w)
      | Inr cfg \<Rightarrow>
          (case NewClient cfg w of
             (Inl err, w1) \<Rightarrow> (Returned 1, logger LError ''Failed to create IPSSL client'' w1)
           | (Inr client, w1) \<Rightarrow>
               (case Start L e client evs0 rounds
                       (logger LInfo ''Starting IPSSL client'' w1) of
                  (Blocked, w2) \<Rightarrow> (Blocked, w2)
                | (Returned err, w2) \<Rightarrow>
                    (Returned 1, logger LError ''IPSSL client failed'' w2))))"

section \<open>Concrete instances\<close>

text \<open>
  A small library and small worlds on which the definitions can be run.
\<close>

definition L0 :: lib where
  "L0 = \<lparr> time_ParseDuration =
             (\<lambda>s. if s = ''1h'' then Inr time_Hour
                  else if s = ''720h'' then Inr (720 * time_Hour)
                  else Inl (LibErr ''time: invalid duration'')),
           pem_Decode = (\<lambda>b. if take 4 b = ''PEM:'' then Some (drop 4 b) else None),
           x509_ParseCertificate =
             (\<lambda>d. if d = ''cert-until-5000'' then Inr \<lparr> NotAfter = 5000 \<rparr>
                  else Inl (LibErr ''x509: malformed certificate'')),
           net_ParseIP = (\<lambda>s. s \<noteq> []),
           x509_CreateCertificateRequest = (\<lambda>t k. Inr (''CSR:'' @ SubjectCommonName t)),
           x509_ParseCertificateRequest =
             (\<lambda>b. Inr \<lparr> csr_CommonName = drop 4 b, csr_Raw = b \<rparr>),
           x509_MarshalPKCS1PrivateKey = (\<lambda>k. ''key''),
           pem_EncodeToMemory = (\<lambda>t b. ''PEM:'' @ b) \<rparr>"

definition env_malformed :: environ where
  "env_malformed = [''IPSSL_API_KEY'' \<mapsto> ''secret'', ''RENEWAL_INTERVAL'' \<mapsto> ''daily'',
                    ''CERT_VALIDITY'' \<mapsto> ''30 days'']"

definition world0 :: world where
  "world0 = \<lparr> fs = Map.empty, io_fails = (\<lambda>op p. False), writes = [],
               clock = (\<lambda>n. 1000), clock_reads = 0,
               authority = (\<lambda>cs. RError (LibErr ''connection refused'')), calls = [],
               rsa_keys = (\<lambda>n. Inr n), rsa_count = 0, privateKeys = Map.empty,
               docker_connect = None, docker_reload = (\<lambda>n. None), reloads = [],
               logs = [] \<rparr>"

definition cert_obj :: "string \<Rightarrow> string \<Rightarrow> string \<Rightarrow> CertificateObject" where
  "cert_obj i cn st = \<lparr> ID = i, CommonName = cn, Status = st, Validation = None \<rparr>"

text \<open>An authority that lists four requests, three of them for 203.0.113.7.\<close>

definition world_list :: world where
  "world_list = world0\<lparr>authority :=
     (\<lambda>cs. RList [cert_obj ''r1'' ''198.51.100.1'' ''issued'',
                  cert_obj ''r2'' ''203.0.113.7'' ''expired'',
                  cert_obj ''r3'' ''203.0.113.7'' ''draft'',
                  cert_obj ''r4'' ''203.0.113.7'' ''issued''])\<rparr>"

text \<open>
  A certificate file whose certificate expires at 5000, read at time 1000 (the clock
  of \<open>world0\<close>).
\<close>

definition world_cert :: world where
  "world_cert = world0\<lparr>fs := [''/ipssl/cert.pem'' \<mapsto> File ''PEM:cert-until-5000'' perm_0644]\<rparr>"

text \<open>
  An authority that answers the first call with a draft request, the second with one
  pending validation, and every later call with an issued one.
\<close>

definition world_poll :: world where
  "world_poll = world0\<lparr>authority :=
     (\<lambda>cs. if length cs = 1 then RCert (cert_obj ''abc123'' ''203.0.113.7'' ''draft'')
           else if length cs = 2
           then RCert (cert_obj ''abc123'' ''203.0.113.7'' ''pending_validation'')
           else RCert (cert_obj ''abc123'' ''203.0.113.7'' ''issued''))\<rparr>"

definition config0 :: Config where
  "config0 = \<lparr> ClientIP = ''203.0.113.7'', APIKey = ''secret'',
                ValidationDir = ''/usr/share/caddy/'', SSLDir = ''/ipssl/'',
                ContainerName = [], RenewalInterval = 24 * time_Hour,
                CertValidity = 720 * time_Hour \<rparr>"

definition client0 :: Client where
  "client0 = \<lparr> config = config0, zerossl = \<lparr> apiKey = ''secret'' \<rparr>, docker = False \<rparr>"

text \<open>
  Two validation methods: one with the tokens abc and def for a URL that ends in
  XYZ123, one without tokens.
\<close>

definition methods0 :: "(string \<times> ValidationObject) list" where
  "methods0 =
     [(''203.0.113.7'',
       \<lparr> FileValidationURLHTTP = ''http://203.0.113.7/.well-known/pki-validation/XYZ123'',
         FileValidationContent = [''abc'', ''def''] \<rparr>),
      (''other'',
       \<lparr> FileValidationURLHTTP = ''http://203.0.113.7/.well-known/pki-validation/EMPTY'',
         FileValidationContent = [] \<rparr>)]"

text \<open>
  An authority that answers a status call with a draft request that carries the
  validation methods \<open>methods0\<close>, in a world where the validation directory cannot be
  created.
\<close>

definition world_fsfail :: world where
  "world_fsfail = world0\<lparr>
     authority := (\<lambda>cs. RCert \<lparr> ID = ''abc123'', CommonName = ''203.0.113.7'',
                               Status = ''draft'',
                               Validation = Some \<lparr> OtherMethods = Some methods0 \<rparr> \<rparr>),
     io_fails := (\<lambda>op p. op = OpMkdir)\<rparr>"





section \<open>Paths\<close>









section \<open>Configuration loading\<close>

lemma getDurationEnv_malformed:
  "isl (time_ParseDuration L (os_Getenv e k)) \<Longrightarrow> getDurationEnv L e k d = d"
  by (auto simp: getDurationEnv_def Let_def split: sum.splits)

text \<open>
  C10. Loading the configuration fails exactly when the API key is missing or empty,
  so no value of a duration variable makes it fail; and when it succeeds, a renewal
  interval or validity threshold that is set but does not parse as a duration is
  replaced by the built-in default, 24 hours and 720 hours.
\<close>

theorem Load_malformed_duration_default:
  "(isl (Load L e) \<longleftrightarrow> os_Getenv e ''IPSSL_API_KEY'' = []) \<and>
   (\<forall>cfg. Load L e = Inr cfg \<longrightarrow>
      (os_Getenv e ''RENEWAL_INTERVAL'' \<noteq> [] \<and>
       isl (time_ParseDuration L (os_Getenv e ''RENEWAL_INTERVAL''))
         \<longrightarrow> RenewalInterval cfg = 24 * time_Hour) \<and>
      (os_Getenv e ''CERT_VALIDITY'' \<noteq> [] \<and>
       isl (time_ParseDuration L (os_Getenv e ''CERT_VALIDITY''))
         \<longrightarrow> CertValidity cfg = 720 * time_Hour))"
  by (auto simp: Load_def getEnv_def Let_def getDurationEnv_malformed split: if_splits)

theorem Load_malformed_duration_default_witness:
  "\<not> isl (Load L0 env_malformed) \<and>
   os_Getenv env_malformed ''IPSSL_API_KEY'' \<noteq> [] \<and>
   os_Getenv env_malformed ''RENEWAL_INTERVAL'' = ''daily'' \<and>
   isl (time_ParseDuration L0 ''daily'') \<and>
   os_Getenv env_malformed ''CERT_VALIDITY'' = ''30 days'' \<and>
   isl (time_ParseDuration L0 ''30 days'') \<and>
   RenewalInterval (projr (Load L0 env_malformed)) = 24 * time_Hour \<and>
   CertValidity (projr (Load L0 env_malformed)) = 720 * time_Hour"
proof -
  have k: "os_Getenv env_malformed ''IPSSL_API_KEY'' \<noteq> []"
    by (simp add: os_Getenv_def env_malformed_def)
  have r: "os_Getenv env_malformed ''RENEWAL_INTERVAL'' = ''daily''"
    by (simp add: os_Getenv_def env_malformed_def)
  have v: "os_Getenv env_malformed ''CERT_VALIDITY'' = ''30 days''"
    by (simp add: os_Getenv_def env_malformed_def)
  have p: "isl (time_ParseDuration L0 ''daily'')" "isl (time_ParseDuration L0 ''30 days'')"
    by (simp_all add: L0_def)
  from Load_malformed_duration_default [of L0 env_malformed] k
  have ok: "\<not> isl (Load L0 env_malformed)" by simp
  then obtain cfg where c: "Load L0 env_malformed = Inr cfg"
    by (cases "Load L0 env_malformed") auto
  with Load_malformed_duration_default [of L0 env_malformed] r v p
  have "RenewalInterval cfg = 24 * time_Hour" "CertValidity cfg = 720 * time_Hour"
    by auto
  with ok c k r v p show ?thesis by simp
qed

section \<open>Looking up an existing request\<close>

lemma findExistingCertificate_loop_find:
  "fst (findExistingCertificate_loop ip results w) =
     (case find (\<lambda>c. CommonName c = ip \<and>
                      (Status c = ''issued'' \<or> Status c = ''pending_validation''
                       \<or> Status c = ''draft'')) results of
        Some c \<Rightarrow> ID c | None \<Rightarrow> [])"
  by (induction results arbitrary: w) (simp_all add: Let_def)

text \<open>
  C8. When the authority answers the list call with \<open>results\<close>, the lookup returns,
  without error, the identifier of the first request of \<open>results\<close> whose common name
  is the IP and whose status is issued, pending_validation or draft (requests for the
  IP with another status are passed over), and the empty identifier when there is none.
\<close>

theorem findExistingCertificate_first_match:
  assumes "authority w (calls w @ [ListCertificates]) = RList results"
  shows "fst (findExistingCertificate ip w) =
     (case find (\<lambda>c. CommonName c = ip \<and>
                      (Status c = ''issued'' \<or> Status c = ''pending_validation''
                       \<or> Status c = ''draft'')) results of
        Some c \<Rightarrow> (ID c, None) | None \<Rightarrow> ([], None))"
proof -
  let ?w1 = "w\<lparr>calls := calls w @ [ListCertificates]\<rparr>"
  have l: "client_ListCertificates w = (Inr results, ?w1)"
    using assms by (simp add: client_ListCertificates_def api_do_def)
  have "fst (findExistingCertificate ip w) =
          (fst (findExistingCertificate_loop ip results ?w1), None)"
    by (simp add: findExistingCertificate_def l split: prod.splits)
  then show ?thesis
    by (simp add: findExistingCertificate_loop_find split: option.splits)
qed

theorem findExistingCertificate_first_match_witness:
  "fst (findExistingCertificate ''203.0.113.7'' world_list) = (''r3'', None)"
proof -
  have a: "authority world_list (calls world_list @ [ListCertificates]) =
             RList [cert_obj ''r1'' ''198.51.100.1'' ''issued'',
                    cert_obj ''r2'' ''203.0.113.7'' ''expired'',
                    cert_obj ''r3'' ''203.0.113.7'' ''draft'',
                    cert_obj ''r4'' ''203.0.113.7'' ''issued'']"
    by (simp add: world_list_def)
  show ?thesis
    using findExistingCertificate_first_match [OF a, of "''203.0.113.7''"]
    by (simp add: cert_obj_def)
qed

section \<open>Validity of the stored certificate\<close>

text \<open>
  C1 (amended). The validity check returns true exactly when the file can be read, its
  first PEM block parses as a certificate, the current time is not after NotAfter, and
  the current time plus the threshold is not after NotAfter. The two comparisons are
  not strict: at NotAfter = now + threshold the check returns true.
\<close>

theorem IsCertificateValid_iff:
  "fst (fst (IsCertificateValid L certPath validityDuration w)) \<longleftrightarrow>
     (\<exists>certPEM block cert.
        os_ReadFile certPath w = Inr certPEM \<and> pem_Decode L certPEM = Some block \<and>
        x509_ParseCertificate L block = Inr cert \<and>
        clock w (clock_reads w) \<le> NotAfter cert \<and>
        clock w (Suc (clock_reads w)) + validityDuration \<le> NotAfter cert)"
  by (auto simp: IsCertificateValid_def time_Now_def Let_def
           split: sum.splits option.splits)

text \<open>
  The certificate of \<open>world_cert\<close> expires at 5000 = 1000 + 4000; with the clock at
  1000 and a threshold of 4000 the check returns true.
\<close>

theorem IsCertificateValid_boundary_counterexample:
  "clock world_cert 0 = 1000 \<and> clock world_cert 1 = 1000 \<and>
   os_ReadFile ''/ipssl/cert.pem'' world_cert = Inr ''PEM:cert-until-5000'' \<and>
   pem_Decode L0 ''PEM:cert-until-5000'' = Some ''cert-until-5000'' \<and>
   x509_ParseCertificate L0 ''cert-until-5000'' = Inr \<lparr> NotAfter = 1000 + 4000 \<rparr> \<and>
   fst (IsCertificateValid L0 ''/ipssl/cert.pem'' 4000 world_cert) = (True, None)"
  by (simp add: IsCertificateValid_def time_Now_def world_cert_def world0_def L0_def
        os_ReadFile_def)

theorem IsCertificateValid_iff_witness:
  "fst (fst (IsCertificateValid L0 ''/ipssl/cert.pem'' 3000 world_cert))"
proof -
  have "\<exists>certPEM block cert.
        os_ReadFile ''/ipssl/cert.pem'' world_cert = Inr certPEM \<and> pem_Decode L0 certPEM = Some block \<and>
        x509_ParseCertificate L0 block = Inr cert \<and>
        clock world_cert (clock_reads world_cert) \<le> NotAfter cert \<and>
        clock world_cert (Suc (clock_reads world_cert)) + 3000 \<le> NotAfter cert"
    by (simp add: world_cert_def world0_def L0_def os_ReadFile_def)
  then show ?thesis
    using IsCertificateValid_iff [of L0 "''/ipssl/cert.pem''" 3000 world_cert] by simp
qed

section \<open>Waiting for issuance\<close>

lemma client_GetCertificate_world:
  "snd (client_GetCertificate certID w) = w\<lparr>calls := calls w @ [GetCertificate certID]\<rparr>"
  by (simp add: client_GetCertificate_def api_do_def split: api_response.splits)

lemma client_GetCertificate_result:
  "fst (client_GetCertificate certID w) =
     (case authority w (calls w @ [GetCertificate certID]) of
        RCert d \<Rightarrow> Inr d | RError e \<Rightarrow> Inl e | _ \<Rightarrow> Inl (LibErr ''unexpected response''))"
  by (simp add: client_GetCertificate_def api_do_def split: api_response.splits)

lemma client_GetCertificate_eq:
  "client_GetCertificate certID w =
     (case authority w (calls w @ [GetCertificate certID]) of
        RCert d \<Rightarrow> Inr d | RError e \<Rightarrow> Inl e | _ \<Rightarrow> Inl (LibErr ''unexpected response''),
      w\<lparr>calls := calls w @ [GetCertificate certID]\<rparr>)"
  by (simp add: client_GetCertificate_def api_do_def split: api_response.splits)






section \<open>Saving the certificate files\<close>






section \<open>Writing the validation files\<close>




lemma strings_Join_Cons:
  "strings_Join (t # ts) sep = t @ concat (map (\<lambda>x. sep @ x) ts)"
  by (induction ts arbitrary: t) auto

lemma validationContent_loop_pos:
  "i > 0 \<Longrightarrow> validationContent_loop i ts acc = acc @ concat (map (\<lambda>x. [CHR 0x0A] @ x) ts)"
  by (induction ts arbitrary: i acc) auto

lemma validationContent_loop_join:
  "validationContent_loop 0 ts [] = strings_Join ts [CHR 0x0A]"
  by (cases ts) (simp_all add: validationContent_loop_pos strings_Join_Cons)



lemma ValidateCertificate_methods_skip:
  assumes "FileValidationContent v = []"
  shows "ValidateCertificate_methods updated dir ((m, v) # rest) w =
           ValidateCertificate_methods updated dir rest
             (w\<lparr>logs := logs w @
                [(LInfo, if updated then ''Processing updated validation method''
                         else ''Processing validation method''),
                 (LWarn, if updated then ''Skipping updated validation method - no content''
                         else ''Skipping validation method'')]\<rparr>)"
  using assms by (simp add: Let_def logger_def)












section \<open>Validation\<close>

lemma os_MkdirAll_frame:
  "calls (snd (os_MkdirAll p perm w)) = calls w"
  "authority (snd (os_MkdirAll p perm w)) = authority w"
  "io_fails (snd (os_MkdirAll p perm w)) = io_fails w"
  by (simp_all add: os_MkdirAll_def split: option.splits node.splits)

lemma os_WriteFile_frame:
  "calls (snd (os_WriteFile p d perm w)) = calls w"
  "authority (snd (os_WriteFile p d perm w)) = authority w"
  "io_fails (snd (os_WriteFile p d perm w)) = io_fails w"
  by (simp_all add: os_WriteFile_def split: option.splits node.splits)

lemma os_MkdirAll_cong:
  assumes "fs u = fs w" "io_fails u = io_fails w"
  shows "fst (os_MkdirAll p perm u) = fst (os_MkdirAll p perm w)"
    and "fs (snd (os_MkdirAll p perm u)) = fs (snd (os_MkdirAll p perm w))"
  using assms by (simp_all add: os_MkdirAll_def split: option.splits node.splits)

lemma os_WriteFile_cong:
  assumes "fs u = fs w" "io_fails u = io_fails w"
  shows "fst (os_WriteFile p d perm u) = fst (os_WriteFile p d perm w)"
    and "fs (snd (os_WriteFile p d perm u)) = fs (snd (os_WriteFile p d perm w))"
  using assms by (simp_all add: os_WriteFile_def split: option.splits node.splits)

lemma logger_frame:
  "calls (logger l m w) = calls w" "authority (logger l m w) = authority w"
  "io_fails (logger l m w) = io_fails w" "fs (logger l m w) = fs w"
  "writes (logger l m w) = writes w"
  by (simp_all add: logger_def)

text \<open>The step of the loop on a method with content tokens, with every outcome.\<close>

lemma ValidateCertificate_methods_Cons:
  assumes "FileValidationContent v \<noteq> []"
  shows "ValidateCertificate_methods updated dir ((m, v) # rest) w =
     (let w2 = (if updated
                then logger LInfo ''Creating validation file''
                       (logger LInfo ''Processing updated validation method'' w)
                else logger LInfo ''Processing validation method'' w);
          r = os_MkdirAll (filepath_Dir (validationPath dir v)) perm_0755 w2
      in case fst r of
           Some err \<Rightarrow> (Some (Wrap ''failed to create validation directory'' err), snd r)
         | None \<Rightarrow>
             (let q = os_WriteFile (validationPath dir v)
                        (strings_Join (FileValidationContent v) [CHR 0x0A]) perm_0644 (snd r)
              in case fst q of
                   Some err \<Rightarrow> (Some (Wrap ''failed to write validation file'' err), snd q)
                 | None \<Rightarrow>
                     ValidateCertificate_methods updated dir rest
                       (logger LInfo (if updated then ''Validation file created successfully''
                                      else ''Validation file created'') (snd q))))"
  using assms
  by (cases updated)
     (simp_all add: Let_def validationPath_def validationContent_loop_join
        split: prod.splits option.splits)

lemma ValidateCertificate_methods_frame_calls:
  "calls (snd (ValidateCertificate_methods updated dir ms w)) = calls w \<and>
   authority (snd (ValidateCertificate_methods updated dir ms w)) = authority w"
proof (induction ms arbitrary: w)
  case Nil
  then show ?case by simp
next
  case (Cons mv ms)
  obtain m v where mv: "mv = (m, v)" by (cases mv)
  show ?case
  proof (cases "FileValidationContent v = []")
    case True
    show ?thesis
      unfolding mv ValidateCertificate_methods_skip [OF True]
      by (simp add: Cons.IH)
  next
    case False
    show ?thesis
      unfolding mv ValidateCertificate_methods_Cons [OF False] Let_def
      using Cons.IH
      by (cases updated;
          simp add: os_MkdirAll_frame os_WriteFile_frame logger_frame
            split: option.splits)
  qed
qed

lemma ValidateCertificate_methods_cong:
  "fs u = fs w \<Longrightarrow> io_fails u = io_fails w \<Longrightarrow>
     fst (ValidateCertificate_methods updated dir ms u) =
     fst (ValidateCertificate_methods updated dir ms w)"
proof (induction ms arbitrary: u w)
  case Nil
  then show ?case by simp
next
  case (Cons mv ms)
  obtain m v where mv: "mv = (m, v)" by (cases mv)
  show ?case
  proof (cases "FileValidationContent v = []")
    case True
    show ?thesis
      unfolding mv ValidateCertificate_methods_skip [OF True]
      by (rule Cons.IH) (simp_all add: Cons.prems)
  next
    case False
    define u2 where "u2 = (if updated
                then logger LInfo ''Creating validation file''
                       (logger LInfo ''Processing updated validation method'' u)
                else logger LInfo ''Processing validation method'' u)"
    define w2 where "w2 = (if updated
                then logger LInfo ''Creating validation file''
                       (logger LInfo ''Processing updated validation method'' w)
                else logger LInfo ''Processing validation method'' w)"
    have e2: "fs u2 = fs w2" "io_fails u2 = io_fails w2"
      using Cons.prems by (simp_all add: u2_def w2_def logger_frame)
    define Q where "Q = validationPath dir v"
    define P where "P = filepath_Dir Q"
    note mk = os_MkdirAll_cong [OF e2, of P perm_0755]
    have e3: "io_fails (snd (os_MkdirAll P perm_0755 u2)) =
              io_fails (snd (os_MkdirAll P perm_0755 w2))"
      by (simp add: os_MkdirAll_frame e2)
    define C where "C = strings_Join (FileValidationContent v) [CHR 0x0A]"
    note wr = os_WriteFile_cong [OF mk(2) e3, of Q C perm_0644]
    have e4: "io_fails (snd (os_WriteFile Q C perm_0644 (snd (os_MkdirAll P perm_0755 u2)))) =
              io_fails (snd (os_WriteFile Q C perm_0644 (snd (os_MkdirAll P perm_0755 w2))))"
      by (simp add: os_WriteFile_frame e3)
    have ih: "\<And>l msg. fst (ValidateCertificate_methods updated dir ms
                 (logger l msg (snd (os_WriteFile Q C perm_0644 (snd (os_MkdirAll P perm_0755 u2)))))) =
              fst (ValidateCertificate_methods updated dir ms
                 (logger l msg (snd (os_WriteFile Q C perm_0644 (snd (os_MkdirAll P perm_0755 w2))))))"
      by (rule Cons.IH) (simp_all add: logger_frame wr(2) e4)
    show ?thesis
      unfolding mv ValidateCertificate_methods_Cons [OF False] Let_def
        u2_def [symmetric] w2_def [symmetric] Q_def [symmetric] C_def [symmetric]
      unfolding P_def [symmetric]
      using mk(1) wr(1) ih
      by (cases updated; simp split: option.splits)
  qed
qed

lemma client_VerifyIdentifiers_world:
  "snd (client_VerifyIdentifiers certID method emails w) =
     w\<lparr>calls := calls w @ [VerifyIdentifiers certID method emails]\<rparr>"
  by (simp add: client_VerifyIdentifiers_def api_do_def split: api_response.splits)

lemma ValidateCertificate_first_pass_fails:
  assumes g: "authority w (calls w @ [GetCertificate certID]) = RCert d"
    and ms: "validationMethods d = Some ms"
    and f: "fst (ValidateCertificate_methods False dir ms w) = Some err"
  shows "fst (ValidateCertificate certID dir w) = Some err"
    and "calls (snd (ValidateCertificate certID dir w)) = calls w @ [GetCertificate certID]"
proof -
  define U where "U = logger LInfo ''Found validation methods''
     (logger LInfo ''Certificate validation details''
       (logger LInfo ''Successfully got certificate details''
         ((logger LInfo ''Getting certificate details''
            (logger LInfo ''=== ENTERING ValidateCertificate METHOD ===''
              (logger LInfo ''Starting certificate validation'' w)))
          \<lparr>calls := calls w @ [GetCertificate certID]\<rparr>)))"
  have U: "fs U = fs w" "io_fails U = io_fails w" "calls U = calls w @ [GetCertificate certID]"
    by (simp_all add: U_def logger_def)
  from f ValidateCertificate_methods_cong [OF U(1,2), of False dir ms]
  have "fst (ValidateCertificate_methods False dir ms U) = Some err" by simp
  then obtain w7 where r: "ValidateCertificate_methods False dir ms U = (Some err, w7)"
    by (cases "ValidateCertificate_methods False dir ms U") auto
  have c7: "calls w7 = calls w @ [GetCertificate certID]"
    using ValidateCertificate_methods_frame_calls [of False dir ms U] r U(3) by simp
  have "ValidateCertificate certID dir w = (Some err, w7)"
    unfolding ValidateCertificate_def Let_def client_GetCertificate_eq
    using g ms r [unfolded U_def] by (simp add: logger_frame)
  with c7 show "fst (ValidateCertificate certID dir w) = Some err"
    and "calls (snd (ValidateCertificate certID dir w)) = calls w @ [GetCertificate certID]"
    by simp_all
qed


lemma client_VerifyIdentifiers_eq:
  "client_VerifyIdentifiers certID method emails w =
     (case authority w (calls w @ [VerifyIdentifiers certID method emails]) of
        RError e \<Rightarrow> Some e | RVerified \<Rightarrow> None | RCert d \<Rightarrow> None
      | _ \<Rightarrow> Some (LibErr ''unexpected response''),
      w\<lparr>calls := calls w @ [VerifyIdentifiers certID method emails]\<rparr>)"
  by (simp add: client_VerifyIdentifiers_def api_do_def split: api_response.splits)

lemma ValidateCertificate_updated_frame:
  "calls (snd (ValidateCertificate_updated certID dir w)) =
     calls w @ [VerifyIdentifiers certID zerossl_HTTPVerification [], GetCertificate certID]"
  "authority (snd (ValidateCertificate_updated certID dir w)) = authority w"
  unfolding ValidateCertificate_updated_def Let_def client_GetCertificate_eq
    client_VerifyIdentifiers_eq
  by (simp_all add: logger_frame ValidateCertificate_methods_frame_calls case_prod_beta
        split: option.splits api_response.splits)

lemma ValidateCertificate_first_pass_ok:
  assumes g: "authority w (calls w @ [GetCertificate certID]) = RCert d"
    and ms: "validationMethods d = None \<or>
             (\<exists>ms. validationMethods d = Some ms \<and>
                   fst (ValidateCertificate_methods False dir ms w) = None)"
  shows "calls (snd (ValidateCertificate certID dir w)) =
           calls w @ [GetCertificate certID,
                      VerifyIdentifiers certID zerossl_HTTPVerification [],
                      GetCertificate certID]"
proof -
  define U where "U = logger LInfo ''Certificate validation details''
       (logger LInfo ''Successfully got certificate details''
         ((logger LInfo ''Getting certificate details''
            (logger LInfo ''=== ENTERING ValidateCertificate METHOD ===''
              (logger LInfo ''Starting certificate validation'' w)))
          \<lparr>calls := calls w @ [GetCertificate certID]\<rparr>))"
  have U: "fs U = fs w" "io_fails U = io_fails w" "calls U = calls w @ [GetCertificate certID]"
    by (simp_all add: U_def logger_def)
  define P1 where "P1 = (case validationMethods d of
                         Some methods \<Rightarrow>
                           ValidateCertificate_methods False dir methods
                             (logger LInfo ''Found validation methods'' U)
                       | None \<Rightarrow> (None, logger LWarn ''No validation methods found'' U))"
  have p1: "fst P1 = None"
  proof (cases "validationMethods d")
    case None
    then show ?thesis by (simp add: P1_def)
  next
    case (Some ms')
    with ms have "fst (ValidateCertificate_methods False dir ms' w) = None" by auto
    moreover have "fst (ValidateCertificate_methods False dir ms'
                          (logger LInfo ''Found validation methods'' U)) =
                   fst (ValidateCertificate_methods False dir ms' w)"
      by (rule ValidateCertificate_methods_cong) (simp_all add: logger_frame U)
    ultimately show ?thesis by (simp add: P1_def Some)
  qed
  have c1: "calls (snd P1) = calls w @ [GetCertificate certID]"
    by (cases "validationMethods d")
       (simp_all add: P1_def ValidateCertificate_methods_frame_calls logger_frame U)
  obtain w7 where w7: "P1 = (None, w7)" "calls w7 = calls w @ [GetCertificate certID]"
    using p1 c1 by (cases P1) auto
  have "ValidateCertificate certID dir w = ValidateCertificate_updated certID dir w7"
    unfolding ValidateCertificate_def Let_def client_GetCertificate_eq
    using g w7(1) [unfolded P1_def U_def]
    by (simp add: logger_frame)
  with w7(2) show ?thesis by (simp add: ValidateCertificate_updated_frame)
qed


lemma ValidateCertificate_methods_error_kind:
  "fst (ValidateCertificate_methods updated dir ms w) = Some err \<Longrightarrow>
     \<exists>e. err = Wrap ''failed to create validation directory'' e \<or>
         err = Wrap ''failed to write validation file'' e"
proof (induction ms arbitrary: w)
  case Nil
  then show ?case by simp
next
  case (Cons mv ms)
  obtain m v where mv: "mv = (m, v)" by (cases mv)
  show ?case
  proof (cases "FileValidationContent v = []")
    case True
    from Cons.prems show ?thesis
      unfolding mv ValidateCertificate_methods_skip [OF True] by (rule Cons.IH)
  next
    case False
    from Cons.prems Cons.IH show ?thesis
      unfolding mv ValidateCertificate_methods_Cons [OF False] Let_def
      by (cases updated; auto split: option.splits)
  qed
qed

text \<open>
  C4 (amended). Let the first status call of a validation return the request \<open>d\<close>.
  When creating the validation directory or writing a validation file fails for the
  methods of \<open>d\<close>, the validation returns that error, which is one of the two
  file system failures, and its only call to the authority is that first status call:
  validation is not triggered and the updated status is not fetched. When the files
  of \<open>d\<close> are written (or \<open>d\<close> has no methods), validation is triggered and the
  updated status is fetched, whether or not the trigger succeeds.
\<close>

theorem ValidateCertificate_filesystem_failure:
  assumes "authority w (calls w @ [GetCertificate certID]) = RCert d"
  shows "(\<forall>ms err. validationMethods d = Some ms \<and>
             fst (ValidateCertificate_methods False dir ms w) = Some err \<longrightarrow>
           fst (ValidateCertificate certID dir w) = Some err \<and>
           (\<exists>e. err = Wrap ''failed to create validation directory'' e \<or>
                err = Wrap ''failed to write validation file'' e) \<and>
           calls (snd (ValidateCertificate certID dir w)) = calls w @ [GetCertificate certID]) \<and>
         (validationMethods d = None \<or>
            (\<exists>ms. validationMethods d = Some ms \<and>
                  fst (ValidateCertificate_methods False dir ms w) = None) \<longrightarrow>
          calls (snd (ValidateCertificate certID dir w)) =
            calls w @ [GetCertificate certID,
                       VerifyIdentifiers certID zerossl_HTTPVerification [],
                       GetCertificate certID])"
  using ValidateCertificate_first_pass_fails [OF assms]
    ValidateCertificate_first_pass_ok [OF assms]
    ValidateCertificate_methods_error_kind
  by blast

lemma world_fsfail_methods:
  "fst (ValidateCertificate_methods False ''/usr/share/caddy/'' methods0 world_fsfail) =
     Some (Wrap ''failed to create validation directory''
             (OsErr ''mkdir'' ''/usr/share/caddy/.well-known/pki-validation''))"
proof -
  have p2: "filepath_Join [''/usr/share/caddy/'', ''.well-known'', ''pki-validation'',
              filepath_Base ''http://203.0.113.7/.well-known/pki-validation/XYZ123''] =
             ''/usr/share/caddy/.well-known/pki-validation/XYZ123''"
    by (simp add: filepath_Base_def filepath_Join_def filepath_Clean_def cleanStep_def)
  have d: "filepath_Dir ''/usr/share/caddy/.well-known/pki-validation/XYZ123'' =
             ''/usr/share/caddy/.well-known/pki-validation''"
    by (simp add: filepath_Dir_def filepath_Clean_def cleanStep_def)
  show ?thesis
    by (simp add: methods0_def Let_def p2 d os_MkdirAll_def logger_def world_fsfail_def
          world0_def)
qed

lemma world_fsfail_get:
  "authority world_fsfail (calls world_fsfail @ [GetCertificate ''abc123'']) =
     RCert \<lparr> ID = ''abc123'', CommonName = ''203.0.113.7'', Status = ''draft'',
             Validation = Some \<lparr> OtherMethods = Some methods0 \<rparr> \<rparr>"
  by (simp add: world_fsfail_def world0_def)

theorem ValidateCertificate_no_updated_fetch_counterexample:
  "fst (ValidateCertificate ''abc123'' ''/usr/share/caddy/'' world_fsfail) =
     Some (Wrap ''failed to create validation directory''
             (OsErr ''mkdir'' ''/usr/share/caddy/.well-known/pki-validation'')) \<and>
   calls (snd (ValidateCertificate ''abc123'' ''/usr/share/caddy/'' world_fsfail)) =
     [GetCertificate ''abc123'']"
proof -
  have c: "calls world_fsfail = []" by (simp add: world_fsfail_def world0_def)
  have "validationMethods \<lparr> ID = ''abc123'', CommonName = ''203.0.113.7'', Status = ''draft'',
             Validation = Some \<lparr> OtherMethods = Some methods0 \<rparr> \<rparr> = Some methods0"
    by (simp add: validationMethods_def)
  from ValidateCertificate_first_pass_fails [OF world_fsfail_get this world_fsfail_methods] c
  show ?thesis by simp
qed

theorem ValidateCertificate_filesystem_failure_witness:
  "authority world_fsfail (calls world_fsfail @ [GetCertificate ''abc123'']) =
     RCert \<lparr> ID = ''abc123'', CommonName = ''203.0.113.7'', Status = ''draft'',
             Validation = Some \<lparr> OtherMethods = Some methods0 \<rparr> \<rparr> \<and>
   fst (ValidateCertificate_methods False ''/usr/share/caddy/'' methods0 world_fsfail) =
     Some (Wrap ''failed to create validation directory''
             (OsErr ''mkdir'' ''/usr/share/caddy/.well-known/pki-validation'')) \<and>
   calls (snd (ValidateCertificate ''abc123'' ''/usr/share/caddy/'' world_fsfail)) =
     calls world_fsfail @ [GetCertificate ''abc123''] \<and>
   authority world_poll (calls world_poll @ [GetCertificate ''abc123'']) =
     RCert (cert_obj ''abc123'' ''203.0.113.7'' ''draft'') \<and>
   validationMethods (cert_obj ''abc123'' ''203.0.113.7'' ''draft'') = None \<and>
   calls (snd (ValidateCertificate ''abc123'' ''/usr/share/caddy/'' world_poll)) =
     calls world_poll @ [GetCertificate ''abc123'',
                         VerifyIdentifiers ''abc123'' zerossl_HTTPVerification [],
                         GetCertificate ''abc123'']"
proof -
  have m: "validationMethods \<lparr> ID = ''abc123'', CommonName = ''203.0.113.7'',
             Status = ''draft'',
             Validation = Some \<lparr> OtherMethods = Some methods0 \<rparr> \<rparr> = Some methods0"
    by (simp add: validationMethods_def)
  from ValidateCertificate_filesystem_failure
         [OF world_fsfail_get, of "''/usr/share/caddy/''"] m world_fsfail_methods
  have a: "calls (snd (ValidateCertificate ''abc123'' ''/usr/share/caddy/'' world_fsfail)) =
     calls world_fsfail @ [GetCertificate ''abc123'']"
    by blast
  have g: "authority world_poll (calls world_poll @ [GetCertificate ''abc123'']) =
     RCert (cert_obj ''abc123'' ''203.0.113.7'' ''draft'')"
    by (simp add: world_poll_def world0_def)
  have n: "validationMethods (cert_obj ''abc123'' ''203.0.113.7'' ''draft'') = None"
    by (simp add: validationMethods_def cert_obj_def)
  from ValidateCertificate_filesystem_failure [OF g, of "''/usr/share/caddy/''"] n
  have b: "calls (snd (ValidateCertificate ''abc123'' ''/usr/share/caddy/'' world_poll)) =
     calls world_poll @ [GetCertificate ''abc123'',
                         VerifyIdentifiers ''abc123'' zerossl_HTTPVerification [],
                         GetCertificate ''abc123'']"
    by blast
  from world_fsfail_get world_fsfail_methods a g n b show ?thesis by blast
qed

section \<open>Requesting a certificate\<close>




















section \<open>The renewal loop\<close>

lemma Start_loop_Ticker:
  "Start_loop L e c ((TickerC, evs) # rounds) w =
     (if fst (isCertificateValid L c w) then
        Start_loop L e c rounds
          (logger LInfo ''Certificate is still valid, skipping renewal''
             (snd (isCertificateValid L c w)))
      else
        (case fst (requestCertificate L e c evs
                     (logger LInfo
                        ''Certificate needs renewal (missing, expired, or expiring soon)''
                        (snd (isCertificateValid L c w)))) of
           Blocked \<Rightarrow>
             (Blocked, snd (requestCertificate L e c evs
                     (logger LInfo
                        ''Certificate needs renewal (missing, expired, or expiring soon)''
                        (snd (isCertificateValid L c w)))))
         | Returned (Some err) \<Rightarrow>
             Start_loop L e c rounds
               (logger LError ''Failed to renew certificate''
                  (snd (requestCertificate L e c evs
                     (logger LInfo
                        ''Certificate needs renewal (missing, expired, or expiring soon)''
                        (snd (isCertificateValid L c w))))))
         | Returned None \<Rightarrow>
             Start_loop L e c rounds
               (snd (requestCertificate L e c evs
                     (logger LInfo
                        ''Certificate needs renewal (missing, expired, or expiring soon)''
                        (snd (isCertificateValid L c w)))))))"
  by (simp add: case_prod_beta split: bool.splits result.splits option.splits)

lemma Start_loop_exit:
  "Start_loop L e c rounds w = (Returned err, w') \<Longrightarrow>
     err = CtxErr \<and> (\<exists>evs. (CtxDone, evs) \<in> set rounds)"
proof (induction rounds arbitrary: w)
  case Nil
  then show ?case by simp
next
  case (Cons r rounds)
  obtain ev evs where r: "r = (ev, evs)" by (cases r)
  show ?case
  proof (cases ev)
    case CtxDone
    with Cons.prems r show ?thesis by auto
  next
    case TickerC
    from Cons.prems [unfolded r TickerC Start_loop_Ticker]
    obtain v where "Start_loop L e c rounds v = (Returned err, w')"
      by (auto split: if_splits result.splits option.splits)
    from Cons.IH [OF this] show ?thesis by auto
  qed
qed

text \<open>
  C2 (amended). The loop of \<open>Start\<close> returns only with the error of the context, after
  a round in which the context was done: no failure of a renewal makes it return. A
  renewal that a tick triggers and that fails is logged as an error, and the loop goes
  on with the next round. The renewal at startup is outside the loop: when it fails,
  \<open>Start\<close> returns its error, wrapped.
\<close>

theorem Start_loop_survives_failure:
  "(\<forall>err w'. Start_loop L e c rounds w = (Returned err, w') \<longrightarrow>
      err = CtxErr \<and> (\<exists>evs. (CtxDone, evs) \<in> set rounds)) \<and>
   (\<forall>v1 err v2.
      isCertificateValid L c w = (False, v1) \<and>
      requestCertificate L e c evs
        (logger LInfo ''Certificate needs renewal (missing, expired, or expiring soon)'' v1)
        = (Returned (Some err), v2) \<longrightarrow>
      Start_loop L e c ((TickerC, evs) # rounds) w =
        Start_loop L e c rounds (logger LError ''Failed to renew certificate'' v2)) \<and>
   (\<forall>v0 v1 err v2.
      ensureDirectories c (logger LInfo ''Starting IPSSL client'' w) = (None, v0) \<and>
      isCertificateValid L c v0 = (False, v1) \<and>
      requestCertificate L e c evs0
        (logger LInfo ''Certificate needs to be downloaded (missing or invalid)'' v1)
        = (Returned (Some err), v2) \<longrightarrow>
      Start L e c evs0 rounds w = (Returned (Wrap ''failed to request certificate'' err), v2))"
proof (intro conjI allI impI)
  fix err w'
  assume "Start_loop L e c rounds w = (Returned err, w')"
  from Start_loop_exit [OF this]
  show "err = CtxErr" and "\<exists>evs. (CtxDone, evs) \<in> set rounds" by simp_all
next
  fix v1 err v2
  assume "isCertificateValid L c w = (False, v1) \<and>
      requestCertificate L e c evs
        (logger LInfo ''Certificate needs renewal (missing, expired, or expiring soon)'' v1)
        = (Returned (Some err), v2)"
  then show "Start_loop L e c ((TickerC, evs) # rounds) w =
        Start_loop L e c rounds (logger LError ''Failed to renew certificate'' v2)"
    by (simp add: Start_loop_Ticker)
next
  fix v0 v1 err v2
  assume "ensureDirectories c (logger LInfo ''Starting IPSSL client'' w) = (None, v0) \<and>
      isCertificateValid L c v0 = (False, v1) \<and>
      requestCertificate L e c evs0
        (logger LInfo ''Certificate needs to be downloaded (missing or invalid)'' v1)
        = (Returned (Some err), v2)"
  then show "Start L e c evs0 rounds w =
               (Returned (Wrap ''failed to request certificate'' err), v2)"
    by (simp add: Start_def)
qed

text \<open>
  With an authority that cannot be reached, no certificate on disk and no event at
  all (no tick and no shutdown signal), \<open>Start\<close> returns the failure of the renewal at
  startup, and \<open>main\<close> exits with status 1.
\<close>

theorem Start_startup_failure_counterexample:
  "fst (Start L0 Map.empty client0 [] [] world0) =
     Returned (Wrap ''failed to request certificate''
       (Wrap ''failed to request certificate from ZeroSSL''
         (Wrap ''failed to create IP certificate''
           (Wrap ''failed to create certificate request'' (LibErr ''connection refused''))))) \<and>
   fst (main L0 env_malformed [] [] world0) = Returned 1"
  by code_simp

lemma world0_invalid: "fst (isCertificateValid L0 client0 world0) = False"
  by code_simp

lemma world0_attempt:
  "fst (requestCertificate L0 Map.empty client0 []
          (logger LInfo ''Certificate needs renewal (missing, expired, or expiring soon)''
             (snd (isCertificateValid L0 client0 world0)))) =
     Returned (Some (Wrap ''failed to request certificate from ZeroSSL''
         (Wrap ''failed to create IP certificate''
           (Wrap ''failed to create certificate request'' (LibErr ''connection refused'')))))"
  by code_simp

lemma world0_loop:
  "fst (Start_loop L0 Map.empty client0 [(TickerC, []), (CtxDone, [])] world0) = Returned CtxErr"
  by code_simp

lemma world0_dirs:
  "fst (ensureDirectories client0 (logger LInfo ''Starting IPSSL client'' world0)) = None"
  by code_simp

lemma world0_startup_invalid:
  "fst (isCertificateValid L0 client0
          (snd (ensureDirectories client0 (logger LInfo ''Starting IPSSL client'' world0))))
     = False"
  by code_simp

lemma world0_startup_attempt:
  "fst (requestCertificate L0 Map.empty client0 []
          (logger LInfo ''Certificate needs to be downloaded (missing or invalid)''
             (snd (isCertificateValid L0 client0
                (snd (ensureDirectories client0
                        (logger LInfo ''Starting IPSSL client'' world0))))))) =
     Returned (Some (Wrap ''failed to request certificate from ZeroSSL''
         (Wrap ''failed to create IP certificate''
           (Wrap ''failed to create certificate request'' (LibErr ''connection refused'')))))"
  by code_simp

theorem Start_loop_survives_failure_witness:
  "fst (isCertificateValid L0 client0 world0) = False \<and>
   fst (requestCertificate L0 Map.empty client0 []
          (logger LInfo ''Certificate needs renewal (missing, expired, or expiring soon)''
             (snd (isCertificateValid L0 client0 world0)))) =
     Returned (Some (Wrap ''failed to request certificate from ZeroSSL''
         (Wrap ''failed to create IP certificate''
           (Wrap ''failed to create certificate request'' (LibErr ''connection refused''))))) \<and>
   Start_loop L0 Map.empty client0 [(TickerC, []), (CtxDone, [])] world0 =
     Start_loop L0 Map.empty client0 [(CtxDone, [])]
       (logger LError ''Failed to renew certificate''
          (snd (requestCertificate L0 Map.empty client0 []
                  (logger LInfo
                     ''Certificate needs renewal (missing, expired, or expiring soon)''
                     (snd (isCertificateValid L0 client0 world0)))))) \<and>
   fst (Start_loop L0 Map.empty client0 [(TickerC, []), (CtxDone, [])] world0) = Returned CtxErr \<and>
   (\<exists>evs::select_case list. (CtxDone, evs) \<in> set [(TickerC, []), (CtxDone, [])]) \<and>
   fst (ensureDirectories client0 (logger LInfo ''Starting IPSSL client'' world0)) = None \<and>
   fst (isCertificateValid L0 client0
          (snd (ensureDirectories client0 (logger LInfo ''Starting IPSSL client'' world0))))
     = False \<and>
   fst (Start L0 Map.empty client0 [] [(TickerC, []), (CtxDone, [])] world0) =
     Returned (Wrap ''failed to request certificate''
       (Wrap ''failed to request certificate from ZeroSSL''
         (Wrap ''failed to create IP certificate''
           (Wrap ''failed to create certificate request'' (LibErr ''connection refused'')))))"
proof -
  define v1 where "v1 = snd (isCertificateValid L0 client0 world0)"
  define v2 where "v2 = snd (requestCertificate L0 Map.empty client0 []
          (logger LInfo ''Certificate needs renewal (missing, expired, or expiring soon)'' v1))"
  define err where "err = Wrap ''failed to request certificate from ZeroSSL''
         (Wrap ''failed to create IP certificate''
           (Wrap ''failed to create certificate request'' (LibErr ''connection refused'')))"
  have a: "isCertificateValid L0 client0 world0 = (False, v1)"
    unfolding v1_def using world0_invalid by (metis prod.collapse)
  have b: "requestCertificate L0 Map.empty client0 []
        (logger LInfo ''Certificate needs renewal (missing, expired, or expiring soon)'' v1)
        = (Returned (Some err), v2)"
    unfolding v2_def err_def using world0_attempt [folded v1_def] by (metis prod.collapse)
  from Start_loop_survives_failure
         [where L = L0 and e = Map.empty and c = client0 and rounds = "[(CtxDone, [])]"
            and w = world0 and evs = "[]" and ?evs0.0 = "[]"] a b
  have step: "Start_loop L0 Map.empty client0 [(TickerC, []), (CtxDone, [])] world0 =
     Start_loop L0 Map.empty client0 [(CtxDone, [])]
       (logger LError ''Failed to renew certificate'' v2)"
    by blast
  have c: "Start_loop L0 Map.empty client0 [(TickerC, []), (CtxDone, [])] world0 =
            (Returned CtxErr,
             snd (Start_loop L0 Map.empty client0 [(TickerC, []), (CtxDone, [])] world0))"
    using world0_loop by (metis prod.collapse)
  note t = Start_loop_survives_failure
         [where L = L0 and e = Map.empty and c = client0
            and rounds = "[(TickerC, []), (CtxDone, [])]"
            and w = world0 and evs = "[]" and ?evs0.0 = "[]"]
  have ex: "\<exists>evs::select_case list. (CtxDone, evs) \<in> set [(TickerC, []), (CtxDone, [])]"
    using conjunct1 [OF t, rule_format, OF c] by (rule conjunct2)
  define u0 where
    "u0 = snd (ensureDirectories client0 (logger LInfo ''Starting IPSSL client'' world0))"
  define u1 where "u1 = snd (isCertificateValid L0 client0 u0)"
  define u2 where "u2 = snd (requestCertificate L0 Map.empty client0 []
          (logger LInfo ''Certificate needs to be downloaded (missing or invalid)'' u1))"
  have d: "ensureDirectories client0 (logger LInfo ''Starting IPSSL client'' world0) = (None, u0)"
    unfolding u0_def using world0_dirs by (metis prod.collapse)
  have i: "isCertificateValid L0 client0 u0 = (False, u1)"
    unfolding u1_def using world0_startup_invalid [folded u0_def] by (metis prod.collapse)
  have r: "requestCertificate L0 Map.empty client0 []
        (logger LInfo ''Certificate needs to be downloaded (missing or invalid)'' u1)
        = (Returned (Some err), u2)"
    unfolding u2_def err_def using world0_startup_attempt [folded u0_def, folded u1_def]
    by (metis prod.collapse)
  have st: "Start L0 Map.empty client0 [] [(TickerC, []), (CtxDone, [])] world0 =
              (Returned (Wrap ''failed to request certificate'' err), u2)"
    using conjunct2 [OF conjunct2 [OF t], rule_format, of u0 u1 err u2] d i r by simp
  from world0_invalid world0_attempt step [unfolded v2_def v1_def] world0_loop ex
    world0_dirs world0_startup_invalid st [unfolded err_def]
  show ?thesis by simp
qed

section \<open>Where the parameters of a renewal come from\<close>










end
